theory Spec2Isabelle
  imports Main "HOL-Library.AList"
begin

section \<open>Values of the access layer (database.py)\<close>

text \<open>
  database.py is a thin layer over an ORM: \<open>Engine\<close> forwards raw statements,
  \<open>BaseModel\<close> owns one session and offers \<open>auto_commit\<close>, \<open>get_all\<close>, \<open>get_first\<close>,
  \<open>get_one\<close> and the class method \<open>to_dict\<close>. The Python objects these functions
  receive are modelled by the types below. The ORM itself (sessions, cursors, queries)
  is not part of the repository; what the code asks of it is written down where it is
  used.
\<close>

subsection \<open>Column values\<close>

text \<open>
  A naive \<open>datetime.datetime\<close>. \<open>str\<close> of it is \<open>isoformat(sep=' ')\<close>:
  \<open>YYYY-MM-DD HH:MM:SS\<close>, followed by \<open>.ffffff\<close> when the microsecond is not zero.
\<close>

datatype datetime =
  Datetime (year: nat) (month: nat) (day: nat) (hour: nat) (minute: nat) (second: nat)
    (microsecond: nat)

fun zfill :: "nat \<Rightarrow> nat \<Rightarrow> string" where
  "zfill 0 n = []"
| "zfill (Suc w) n = zfill w (n div 10) @ [''0123456789'' ! (n mod 10)]"

definition str_datetime :: "datetime \<Rightarrow> string" where
  "str_datetime d =
     zfill 4 (year d) @ ''-'' @ zfill 2 (month d) @ ''-'' @ zfill 2 (day d) @ '' '' @
     zfill 2 (hour d) @ '':'' @ zfill 2 (minute d) @ '':'' @ zfill 2 (second d) @
     (if microsecond d = 0 then [] else ''.'' @ zfill 6 (microsecond d))"

text \<open>The scalar values a column holds.\<close>

datatype scalar = SNone | SBool bool | SInt int | SStr string | SDatetime datetime

fun is_datetime :: "scalar \<Rightarrow> bool" where
  "is_datetime (SDatetime d) = True"
| "is_datetime v = False"

text \<open>Python truth value of a scalar (\<open>if v:\<close>).\<close>

fun scalar_truthy :: "scalar \<Rightarrow> bool" where
  "scalar_truthy SNone = False"
| "scalar_truthy (SBool b) = b"
| "scalar_truthy (SInt i) = (i \<noteq> 0)"
| "scalar_truthy (SStr s) = (s \<noteq> [])"
| "scalar_truthy (SDatetime d) = True"

subsection \<open>Row elements, rows and results\<close>

text \<open>
  An element of a result row is a column value or a mapped entity. A mapped entity is
  given by the keys of \<open>obj.__mapper__.c\<close> and by \<open>getattr(obj, key)\<close>. A mapped
  class that defines no \<open>__bool__\<close> or \<open>__len__\<close> is true in a condition.
\<close>

datatype cell = Scalar scalar | Entity "string list" "string \<Rightarrow> scalar"

fun truthy :: "cell \<Rightarrow> bool" where
  "truthy (Scalar v) = scalar_truthy v"
| "truthy (Entity ks g) = True"

text \<open>
  The objects \<open>to_dict\<close> and the \<open>get_*\<close> helpers see:
  \<^item> \<open>PList\<close>: a Python list;
  \<^item> \<open>PQuery sql rs\<close>: a \<open>Query\<close> that has not been executed; \<open>sql\<close> is the text
    \<open>str(query)\<close> gives and \<open>rs\<close> the results its execution yields;
  \<^item> \<open>PRow\<close>: a \<open>sqlalchemy.engine.row.Row\<close>, its keys paired with its elements;
  \<^item> \<open>PCell\<close>: a scalar (\<open>None\<close> among them) or a mapped entity;
  \<^item> \<open>PDict\<close>: a \<open>dict\<close> in insertion order;
  \<^item> \<open>PRowMapping\<close>: the \<open>_mapping\<close> view of a row.
\<close>

datatype pyval =
    PList "pyval list"
  | PQuery string "pyval list"
  | PRow "(string \<times> cell) list"
  | PCell cell
  | PDict "(string \<times> scalar) list"
  | PRowMapping "(string \<times> cell) list"

abbreviation PNone :: pyval where
  "PNone \<equiv> PCell (Scalar SNone)"

text \<open>Exceptions the modelled code raises or catches.\<close>

datatype error = AttributeError | IndexError | MultipleResultsFound | NoResultFound

text \<open>
  What \<open>print\<close> writes. \<open>MultipleResultsReport q\<close> is the line of \<open>get_one\<close> for
  several rows (line 166), \<open>NoResultReport q\<close> the one for no row (line 168), both
  followed by the query \<open>q\<close>; \<open>ExecuteSqlFirst\<close> is line 218 of \<open>to_dict\<close>
  ("execute this sql statement first").
\<close>

datatype printed = MultipleResultsReport string | NoResultReport string | ExecuteSqlFirst

section \<open>Engine: raw statements\<close>

text \<open>
  \<open>Engine.execute\<close> hands the statement to the driver and returns its result object,
  or raises the driver's error. Of the result the code uses \<open>fetchall()\<close> and
  \<open>fetchmany(size=size)\<close>. The result object is the ORM's, over a DB-API cursor;
  neither is code of database.py. They are written down here for the sqlite3 driver,
  the dialect of the spec's scenario:
  \<^item> the result of a statement that returns no rows (an INSERT) is closed, and every
    fetch on it raises \<open>ResourceClosedError\<close>;
  \<^item> \<open>fetchmany(size)\<close> passes \<open>size\<close> to the cursor, and the cursor's own
    \<open>arraysize\<close> (1 unless it is set) when \<open>size\<close> is \<open>None\<close>;
  \<^item> the cursor converts the size to a C int, with \<open>OverflowError\<close> outside
    \<open>-2^31 .. 2^31 - 1\<close>, and stops once it has appended that many rows; a size of 0
    or less never stops it, so every row is returned.
  The driver's \<open>execute\<close> is a parameter; \<open>sz\<close> stands for the argument \<open>size\<close>.
\<close>

datatype db_error = ExecuteError string | ResourceClosedError | OverflowError







section \<open>BaseModel.auto_commit\<close>

text \<open>
  An exception object: whether its class derives from \<open>Exception\<close> (a
  \<open>KeyboardInterrupt\<close> or \<open>SystemExit\<close> does not), and its identity.
\<close>

datatype exn = Exn (is_Exception: bool) (exn_id: nat)

text \<open>
  A step on the session either returns (\<open>None\<close>) or raises (\<open>Some e\<close>), and leaves a
  session state. The body of the \<open>with\<close> block and the session's \<open>commit\<close> and
  \<open>rollback\<close> are such steps.
\<close>

type_synonym 's step = "'s \<Rightarrow> exn option \<times> 's"

text \<open>The handler \<open>except Exception as e: self.session.rollback(); raise e\<close>.\<close>

definition except_Exception :: "'s step \<Rightarrow> exn \<Rightarrow> 's \<Rightarrow> exn option \<times> 's" where
  "except_Exception rollback e s =
     (if is_Exception e then
        (case rollback s of
           (None, s') \<Rightarrow> (Some e, s')
         | (Some e', s') \<Rightarrow> (Some e', s'))
      else (Some e, s))"

definition auto_commit :: "'s step \<Rightarrow> 's step \<Rightarrow> 's step \<Rightarrow> 's step" where
  "auto_commit commit rollback body s =
     (case body s of
        (Some e, s1) \<Rightarrow> except_Exception rollback e s1
      | (None, s1) \<Rightarrow>
          (case commit s1 of
             (Some e, s2) \<Rightarrow> except_Exception rollback e s2
           | (None, s2) \<Rightarrow> (None, s2)))"

text \<open>
  A session to run \<open>auto_commit\<close> on: the staged changes and the durable ones.
  \<open>insert_row\<close> stages a change; \<open>interrupted\<close> stages one and is then stopped by an
  exception that is not an \<open>Exception\<close>; \<open>failing\<close> stages one and raises an
  \<open>Exception\<close>.
\<close>

record session =
  staged :: "nat list"
  durable :: "nat list"

definition session_commit :: "session step" where
  "session_commit s = (None, \<lparr>staged = [], durable = durable s @ staged s\<rparr>)"

definition session_rollback :: "session step" where
  "session_rollback s = (None, s\<lparr>staged := []\<rparr>)"

definition insert_row :: "nat \<Rightarrow> session step" where
  "insert_row x s = (None, s\<lparr>staged := staged s @ [x]\<rparr>)"

definition interrupted :: "nat \<Rightarrow> session step" where
  "interrupted x s = (Some (Exn False 7), s\<lparr>staged := staged s @ [x]\<rparr>)"

definition failing :: "nat \<Rightarrow> session step" where
  "failing x s = (Some (Exn True 3), s\<lparr>staged := staged s @ [x]\<rparr>)"

section \<open>BaseModel.get_all, get_first, get_one\<close>

text \<open>
  \<open>Query.one()\<close> returns the only result, raises \<open>NoResultFound\<close> when there is
  none and \<open>MultipleResultsFound\<close> when there are several.
\<close>

fun one :: "pyval list \<Rightarrow> error + pyval" where
  "one [] = Inl NoResultFound"
| "one [r] = Inr r"
| "one (r # r' # rs) = Inl MultipleResultsFound"

text \<open>
  Each helper calls a method of \<open>Query\<close> on its argument; an argument without that
  method raises \<open>AttributeError\<close>. The result is what was printed and what was
  returned or raised. \<open>get_one\<close> has no \<open>return\<close> in its handlers, so it returns
  \<open>None\<close> there.
\<close>

fun get_all :: "pyval \<Rightarrow> printed list \<times> (error + pyval)" where
  "get_all (PQuery sql rs) = ([], Inr (PList rs))"
| "get_all v = ([], Inl AttributeError)"

fun get_first :: "pyval \<Rightarrow> printed list \<times> (error + pyval)" where
  "get_first (PQuery sql rs) = ([], Inr (case rs of [] \<Rightarrow> PNone | r # rest \<Rightarrow> r))"
| "get_first v = ([], Inl AttributeError)"

fun get_one :: "pyval \<Rightarrow> printed list \<times> (error + pyval)" where
  "get_one (PQuery sql rs) =
     (case one rs of
        Inr r \<Rightarrow> ([], Inr r)
      | Inl MultipleResultsFound \<Rightarrow> ([MultipleResultsReport sql], Inr PNone)
      | Inl NoResultFound \<Rightarrow> ([NoResultReport sql], Inr PNone)
      | Inl e \<Rightarrow> ([], Inl e))"
| "get_one v = ([], Inl AttributeError)"

section \<open>BaseModel.to_dict\<close>

text \<open>\<open>result[key] = v\<close> on a dict: an existing key keeps its place, a new one is added last.\<close>

definition setitem :: "(string \<times> scalar) list \<Rightarrow> string \<Rightarrow> scalar \<Rightarrow> (string \<times> scalar) list" where
  "setitem result key v = AList.update key v result"

text \<open>\<open>result.update(d)\<close> for a dict \<open>d\<close>: its items are stored in their order.\<close>

fun dict_update :: "(string \<times> scalar) list \<Rightarrow> (string \<times> scalar) list \<Rightarrow> (string \<times> scalar) list" where
  "dict_update result [] = result"
| "dict_update result ((k, v) # d) = dict_update (setitem result k v) d"

text \<open>The loop of lines 231 to 235 over the mapped keys.\<close>

fun columns_loop :: "string list \<Rightarrow> (string \<Rightarrow> scalar) \<Rightarrow> (string \<times> scalar) list \<Rightarrow> (string \<times> scalar) list" where
  "columns_loop [] g result = result"
| "columns_loop (key # keys) g result =
     columns_loop keys g
       (case g key of
          SDatetime d \<Rightarrow> setitem result key (SStr (str_datetime d))
        | v \<Rightarrow> setitem result key v)"

text \<open>
  \<open>to_dict\<close> on a row element. Such an object is no list, no \<open>Query\<close> and no \<open>Row\<close>,
  so the call reaches the last branch (line 229) with \<open>result = {}\<close>; a scalar has
  no \<open>__mapper__\<close>.
\<close>

fun to_dict_cell :: "cell \<Rightarrow> error + (string \<times> scalar) list" where
  "to_dict_cell (Scalar v) = Inl AttributeError"
| "to_dict_cell (Entity ks g) = Inr (columns_loop ks g [])"

text \<open>The loop of lines 225 and 226 over the elements of a row.\<close>

fun row_loop :: "cell list \<Rightarrow> (string \<times> scalar) list \<Rightarrow> error + (string \<times> scalar) list" where
  "row_loop [] result = Inr result"
| "row_loop (i # rest) result =
     (case to_dict_cell i of
        Inl e \<Rightarrow> Inl e
      | Inr d \<Rightarrow> row_loop rest (dict_update result d))"

text \<open>
  Lines 222 to 228. \<open>obj[-1]\<close> of a row without elements raises \<open>IndexError\<close>.
\<close>

definition to_dict_row :: "(string \<times> cell) list \<Rightarrow> error + pyval" where
  "to_dict_row r =
     (if r = [] then Inl IndexError
      else if truthy (snd (last r)) then
        (case row_loop (map snd r) [] of Inl e \<Rightarrow> Inl e | Inr d \<Rightarrow> Inr (PDict d))
      else Inr (PRowMapping r))"

text \<open>
  \<open>to_dict\<close>, with what it prints. \<open>to_dict_list\<close> is the loop of lines 214 and 215
  with its accumulator \<open>result\<close>; an exception of an element ends it. A dict and a
  row mapping have no \<open>__mapper__\<close> either.
\<close>

fun to_dict :: "pyval \<Rightarrow> printed list \<times> (error + pyval)"
  and to_dict_list :: "pyval list \<Rightarrow> pyval list \<Rightarrow> printed list \<times> (error + pyval list)" where
  "to_dict (PList xs) =
     (case to_dict_list xs [] of
        (out, Inl e) \<Rightarrow> (out, Inl e)
      | (out, Inr result) \<Rightarrow> (out, Inr (PList result)))"
| "to_dict (PQuery sql rs) = ([ExecuteSqlFirst], Inr PNone)"
| "to_dict (PRow r) = ([], to_dict_row r)"
| "to_dict (PCell c) =
     ([], case to_dict_cell c of Inl e \<Rightarrow> Inl e | Inr d \<Rightarrow> Inr (PDict d))"
| "to_dict (PDict d) = ([], Inl AttributeError)"
| "to_dict (PRowMapping m) = ([], Inl AttributeError)"
| "to_dict_list [] result = ([], Inr result)"
| "to_dict_list (x # xs) result =
     (case to_dict x of
        (out, Inl e) \<Rightarrow> (out, Inl e)
      | (out, Inr v) \<Rightarrow>
          (case to_dict_list xs (result @ [v]) of (out', r) \<Rightarrow> (out @ out', r)))"

section \<open>Sample objects\<close>

text \<open>
  The objects the closed theorems below are evaluated on: a \<open>User\<close> with id 1 and
  name a, an \<open>Address\<close> with a datetime column, the row of a join of the two, two
  rows of a projection of columns, the row of an outer join that found no user for its
  address, and a driver that answers every statement with three rows, on a cursor
  with the default \<open>arraysize\<close> of 1.
\<close>

definition user_a :: cell where
  "user_a = Entity [''id'', ''name''] (\<lambda>k. if k = ''id'' then SInt 1 else SStr ''a'')"

definition address_b :: cell where
  "address_b =
     Entity [''id'', ''created'']
       (\<lambda>k. if k = ''id'' then SInt 7 else SDatetime (Datetime 2024 1 5 9 30 0 0))"


definition id_name_row :: "(string \<times> cell) list" where
  "id_name_row = [(''id'', Scalar (SInt 1)), (''name'', Scalar (SStr ''a''))]"

definition created_deleted_row :: "(string \<times> cell) list" where
  "created_deleted_row =
     [(''created'', Scalar (SDatetime (Datetime 2024 1 5 9 30 0 0))),
      (''deleted'', Scalar (SInt 0))]"



section \<open>Dictionaries: item assignment and update\<close>

lemma map_of_setitem: "map_of (setitem r k v) = (map_of r)(k \<mapsto> v)"
  by (simp add: setitem_def update_conv')

lemma keys_setitem: "fst ` set (setitem r k v) = insert k (fst ` set r)"
  by (simp add: setitem_def dom_update)

lemma distinct_setitem: "distinct (map fst r) \<Longrightarrow> distinct (map fst (setitem r k v))"
  by (simp add: setitem_def distinct_update)

lemma set_setitem: "set (setitem r k v) \<subseteq> insert (k, v) (set r)"
  unfolding setitem_def by (induction r) auto


lemma set_dict_update: "set (dict_update r d) \<subseteq> set r \<union> set d"
proof (induction d arbitrary: r)
  case Nil
  show ?case by simp
next
  case (Cons kv d)
  obtain k v where kv: "kv = (k, v)" by (cases kv)
  show ?case using Cons.IH[of "setitem r k v"] set_setitem[of r k v] kv by auto
qed

lemma distinct_dict_update:
  "distinct (map fst r) \<Longrightarrow> distinct (map fst (dict_update r d))"
  by (induction d arbitrary: r) (auto simp: distinct_setitem)


section \<open>The loops of to_dict\<close>

text \<open>The loop over the mapped keys stores one item per key, a datetime as its string.\<close>

lemma columns_loop_step:
  "columns_loop (key # keys) g r =
     columns_loop keys g
       (setitem r key (case g key of SDatetime d \<Rightarrow> SStr (str_datetime d) | v \<Rightarrow> v))"
  by (cases "g key") simp_all

lemma rendered_no_datetime:
  "\<not> is_datetime (case v of SDatetime d \<Rightarrow> SStr (str_datetime d) | v \<Rightarrow> v)"
  by (cases v) simp_all

lemma keys_columns_loop: "fst ` set (columns_loop ks g r) = fst ` set r \<union> set ks"
  by (induction ks arbitrary: r) (auto simp: keys_setitem split: scalar.splits)

lemma distinct_columns_loop:
  "distinct (map fst r) \<Longrightarrow> distinct (map fst (columns_loop ks g r))"
  by (induction ks arbitrary: r) (auto simp: distinct_setitem split: scalar.splits)

lemma map_of_columns_loop:
  "map_of (columns_loop ks g r) k =
     (if k \<in> set ks then Some (case g k of SDatetime d \<Rightarrow> SStr (str_datetime d) | v \<Rightarrow> v)
      else map_of r k)"
  by (induction ks arbitrary: r) (auto simp: map_of_setitem split: scalar.splits)

lemma columns_loop_no_datetime:
  "\<forall>(k, v) \<in> set r. \<not> is_datetime v \<Longrightarrow>
     \<forall>(k, v) \<in> set (columns_loop ks g r). \<not> is_datetime v"
proof (induction ks arbitrary: r)
  case Nil
  then show ?case by simp
next
  case (Cons key ks)
  let ?v = "case g key of SDatetime d \<Rightarrow> SStr (str_datetime d) | v \<Rightarrow> v"
  have "\<forall>(k, v) \<in> set (setitem r key ?v). \<not> is_datetime v"
    using Cons.prems set_setitem[of r key ?v] rendered_no_datetime[of "g key"] by auto
  then show ?case
    using Cons.IH[of "setitem r key ?v"] by (simp only: columns_loop_step)
qed

lemma no_datetime_columns_loop:
  "(k, v) \<in> set (columns_loop ks g []) \<Longrightarrow> \<not> is_datetime v"
  using columns_loop_no_datetime[of "[]" ks g] by auto


lemma to_dict_cell_no_datetime: "to_dict_cell c = Inr d \<Longrightarrow> (k, v) \<in> set d \<Longrightarrow> \<not> is_datetime v"
  by (cases c) (auto dest: no_datetime_columns_loop)


lemma row_loop_no_datetime:
  "row_loop cs r = Inr d \<Longrightarrow> \<forall>(k, v) \<in> set r. \<not> is_datetime v \<Longrightarrow> (k, v) \<in> set d
     \<Longrightarrow> \<not> is_datetime v"
proof (induction cs arbitrary: r)
  case Nil
  then show ?case by auto
next
  case (Cons c cs)
  from Cons.prems(1) obtain d0 where d0: "to_dict_cell c = Inr d0"
    and rest: "row_loop cs (dict_update r d0) = Inr d"
    by (auto split: sum.splits)
  have "\<forall>(k, v) \<in> set (dict_update r d0). \<not> is_datetime v"
    using set_dict_update[of r d0] Cons.prems(2) to_dict_cell_no_datetime[OF d0] by auto
  then show ?case using Cons.IH[OF rest] Cons.prems(3) by blast
qed


section \<open>C1: auto_commit\<close>

text \<open>
  C1, as the code has it. When the body returns and \<open>commit\<close> returns, the scope returns
  with the committed session. When the body raises an exception \<open>e\<close> that is an
  \<open>Exception\<close>, the session is rolled back and, \<open>rollback\<close> returning, the same \<open>e\<close> is
  raised. An exception that is not an \<open>Exception\<close> passes \<open>except Exception\<close>: the same
  \<open>e\<close> is raised and the session is left as the body left it, not rolled back.
\<close>

theorem auto_commit_outcomes:
  "(body s = (None, s1) \<and> commit s1 = (None, s2) \<longrightarrow>
      auto_commit commit rollback body s = (None, s2)) \<and>
   (body s = (Some e, s1) \<and> is_Exception e \<and> rollback s1 = (None, s2) \<longrightarrow>
      auto_commit commit rollback body s = (Some e, s2)) \<and>
   (body s = (Some e, s1) \<and> \<not> is_Exception e \<longrightarrow>
      auto_commit commit rollback body s = (Some e, s1))"
  by (simp add: auto_commit_def except_Exception_def)

text \<open>
  The three cases on the sample session: an insert that is committed, a failing body
  whose staged row is discarded, and an interrupted body whose staged row stays.
\<close>

theorem auto_commit_outcomes_witness:
  "auto_commit session_commit session_rollback (insert_row 5) \<lparr>staged = [], durable = []\<rparr>
     = (None, \<lparr>staged = [], durable = [5]\<rparr>) \<and>
   auto_commit session_commit session_rollback (failing 5) \<lparr>staged = [], durable = []\<rparr>
     = (Some (Exn True 3), \<lparr>staged = [], durable = []\<rparr>) \<and>
   auto_commit session_commit session_rollback (interrupted 5) \<lparr>staged = [], durable = []\<rparr>
     = (Some (Exn False 7), \<lparr>staged = [5], durable = []\<rparr>)"
proof -
  have ok: "insert_row 5 \<lparr>staged = [], durable = []\<rparr> = (None, \<lparr>staged = [5], durable = []\<rparr>)"
    by (simp add: insert_row_def)
  have com: "session_commit \<lparr>staged = [5], durable = []\<rparr> = (None, \<lparr>staged = [], durable = [5]\<rparr>)"
    by (simp add: session_commit_def)
  have bad: "failing 5 \<lparr>staged = [], durable = []\<rparr> = (Some (Exn True 3), \<lparr>staged = [5], durable = []\<rparr>)"
    by (simp add: failing_def)
  have rb: "session_rollback \<lparr>staged = [5], durable = []\<rparr> = (None, \<lparr>staged = [], durable = []\<rparr>)"
    by (simp add: session_rollback_def)
  have int: "interrupted 5 \<lparr>staged = [], durable = []\<rparr> = (Some (Exn False 7), \<lparr>staged = [5], durable = []\<rparr>)"
    by (simp add: interrupted_def)
  show ?thesis
    using auto_commit_outcomes[where body = "insert_row 5" and commit = session_commit
        and rollback = session_rollback and s = "\<lparr>staged = [], durable = []\<rparr>"
        and ?s1.0 = "\<lparr>staged = [5], durable = []\<rparr>" and ?s2.0 = "\<lparr>staged = [], durable = [5]\<rparr>"]
      auto_commit_outcomes[where body = "failing 5" and commit = session_commit
        and rollback = session_rollback and s = "\<lparr>staged = [], durable = []\<rparr>"
        and ?s1.0 = "\<lparr>staged = [5], durable = []\<rparr>" and ?s2.0 = "\<lparr>staged = [], durable = []\<rparr>"
        and e = "Exn True 3"]
      auto_commit_outcomes[where body = "interrupted 5" and commit = session_commit
        and rollback = session_rollback and s = "\<lparr>staged = [], durable = []\<rparr>"
        and ?s1.0 = "\<lparr>staged = [5], durable = []\<rparr>" and e = "Exn False 7"]
      ok com bad rb int
    by simp
qed

text \<open>
  C1 as stated fails: the interrupted body raises, the same exception reaches the
  caller, but the session still holds the staged row, which a rollback would discard.
\<close>

theorem auto_commit_interrupt_counterexample:
  "interrupted 5 \<lparr>staged = [], durable = []\<rparr>
     = (Some (Exn False 7), \<lparr>staged = [5], durable = []\<rparr>) \<and>
   auto_commit session_commit session_rollback (interrupted 5) \<lparr>staged = [], durable = []\<rparr>
     = (Some (Exn False 7), \<lparr>staged = [5], durable = []\<rparr>) \<and>
   snd (auto_commit session_commit session_rollback (interrupted 5) \<lparr>staged = [], durable = []\<rparr>)
     \<noteq> snd (session_rollback \<lparr>staged = [5], durable = []\<rparr>)"
  by (simp add: auto_commit_def except_Exception_def interrupted_def session_rollback_def)

section \<open>C2: get_one\<close>

text \<open>
  C2, as the code has it. With exactly one result \<open>get_one\<close> returns that result
  itself, as \<open>Query.one()\<close> gave it, and prints nothing; with none it prints the
  not-found report with the query and returns \<open>None\<close>; with two or more it prints the
  report for several rows with the query and returns \<open>None\<close>. For no result list does
  it raise.
\<close>

theorem get_one_cardinality:
  "get_one (PQuery sql [r]) = ([], Inr r) \<and>
   get_one (PQuery sql []) = ([NoResultReport sql], Inr PNone) \<and>
   get_one (PQuery sql (r # r' # rs)) = ([MultipleResultsReport sql], Inr PNone) \<and>
   (\<exists>out v. get_one (PQuery sql rs) = (out, Inr v))"
proof -
  have "\<exists>out v. get_one (PQuery sql rs) = (out, Inr v)"
    by (cases rs rule: one.cases) simp_all
  then show ?thesis by simp
qed

text \<open>
  C2 as stated fails: for a query with the single result \<open>user_a\<close>, \<open>get_one\<close> returns
  the entity, which is not the dict \<open>to_dict\<close> makes of it.
\<close>

theorem get_one_raw_counterexample:
  "get_one (PQuery ''SELECT'' [PCell user_a]) = ([], Inr (PCell user_a)) \<and>
   to_dict (PCell user_a) = ([], Inr (PDict [(''id'', SInt 1), (''name'', SStr ''a'')])) \<and>
   PCell user_a \<noteq> PDict [(''id'', SInt 1), (''name'', SStr ''a'')]"
  by (simp add: user_a_def setitem_def)

section \<open>C3: to_dict on a row of plain columns\<close>

text \<open>
  C3 says that \<open>to_dict\<close> returns on every row. On the row \<open>(1, 'a')\<close> of a query for
  the columns id and name, the last element is true in a condition, so line 224 takes the
  row for a join and line 226 calls \<open>to_dict(1)\<close>, which raises \<open>AttributeError\<close>.
\<close>

theorem to_dict_projection_row_raises:
  "to_dict (PRow id_name_row) = ([], Inl AttributeError)"
  by (simp add: id_name_row_def to_dict_row_def)

section \<open>C4: to_dict on a mapped entity\<close>

text \<open>
  C4: for every mapped entity, \<open>to_dict\<close> returns a dict whose keys are exactly the
  mapped column keys, each once; a datetime attribute is stored as its string, every
  other attribute as it is.
\<close>

theorem to_dict_entity:
  "\<exists>d. to_dict (PCell (Entity ks g)) = ([], Inr (PDict d)) \<and>
       fst ` set d = set ks \<and> distinct (map fst d) \<and>
       (\<forall>k \<in> set ks.
          (\<forall>t. g k = SDatetime t \<longrightarrow> map_of d k = Some (SStr (str_datetime t))) \<and>
          (\<not> is_datetime (g k) \<longrightarrow> map_of d k = Some (g k)))"
proof (intro exI[of _ "columns_loop ks g []"] conjI ballI)
  show "to_dict (PCell (Entity ks g)) = ([], Inr (PDict (columns_loop ks g [])))" by simp
  show "fst ` set (columns_loop ks g []) = set ks" by (simp add: keys_columns_loop)
  show "distinct (map fst (columns_loop ks g []))" by (simp add: distinct_columns_loop)
next
  fix k assume "k \<in> set ks"
  then have look: "map_of (columns_loop ks g []) k =
      Some (case g k of SDatetime d \<Rightarrow> SStr (str_datetime d) | v \<Rightarrow> v)"
    by (simp add: map_of_columns_loop)
  show "\<forall>t. g k = SDatetime t \<longrightarrow> map_of (columns_loop ks g []) k = Some (SStr (str_datetime t))"
    using look by simp
  show "\<not> is_datetime (g k) \<longrightarrow> map_of (columns_loop ks g []) k = Some (g k)"
    using look by (cases "g k") simp_all
qed

text \<open>The address entity: its id is copied, its datetime column is a string.\<close>

theorem to_dict_entity_witness:
  "\<exists>d. to_dict (PCell address_b) = ([], Inr (PDict d)) \<and>
       fst ` set d = {''id'', ''created''} \<and>
       map_of d ''id'' = Some (SInt 7) \<and>
       map_of d ''created'' = Some (SStr (str_datetime (Datetime 2024 1 5 9 30 0 0)))"
proof -
  let ?g = "\<lambda>k. if k = ''id'' then SInt 7 else SDatetime (Datetime 2024 1 5 9 30 0 0)"
  from to_dict_entity[of "[''id'', ''created'']" ?g] obtain d where
    d: "to_dict (PCell (Entity [''id'', ''created''] ?g)) = ([], Inr (PDict d))"
      "fst ` set d = set [''id'', ''created'']"
      "\<forall>k \<in> set [''id'', ''created''].
          (\<forall>t. ?g k = SDatetime t \<longrightarrow> map_of d k = Some (SStr (str_datetime t))) \<and>
          (\<not> is_datetime (?g k) \<longrightarrow> map_of d k = Some (?g k))"
    by blast
  from d(3) have "map_of d ''id'' = Some (SInt 7)"
    "map_of d ''created'' = Some (SStr (str_datetime (Datetime 2024 1 5 9 30 0 0)))"
    by simp_all
  then show ?thesis using d(1,2) unfolding address_b_def by (intro exI[of _ d]) simp
qed

section \<open>C5: to_dict on a row\<close>




section \<open>C6: datetime values in the results\<close>

text \<open>
  C6, as the code has it: whatever the argument, when \<open>to_dict\<close> returns a dict (from
  an entity, or from a row taken for a join), no item of the dict is a datetime.
\<close>

theorem to_dict_dict_no_datetime:
  "snd (to_dict x) = Inr (PDict d) \<Longrightarrow> (k, v) \<in> set d \<Longrightarrow> \<not> is_datetime v"
proof (cases x)
  case (PList xs)
  assume "snd (to_dict x) = Inr (PDict d)"
  then show ?thesis using PList by (auto split: prod.splits sum.splits)
next
  case (PQuery sql rs)
  assume "snd (to_dict x) = Inr (PDict d)"
  then show ?thesis using PQuery by simp
next
  case (PRow r)
  assume run: "snd (to_dict x) = Inr (PDict d)" and mem: "(k, v) \<in> set d"
  from run PRow have "row_loop (map snd r) [] = Inr d"
    by (auto simp: to_dict_row_def split: if_splits sum.splits)
  then show ?thesis using row_loop_no_datetime[of "map snd r" "[]" d k v] mem by simp
next
  case (PCell c)
  assume run: "snd (to_dict x) = Inr (PDict d)" and mem: "(k, v) \<in> set d"
  from run PCell have "to_dict_cell c = Inr d" by (auto split: sum.splits)
  then show ?thesis using to_dict_cell_no_datetime mem by blast
next
  case (PDict d')
  assume "snd (to_dict x) = Inr (PDict d)"
  then show ?thesis using PDict by simp
next
  case (PRowMapping m)
  assume "snd (to_dict x) = Inr (PDict d)"
  then show ?thesis using PRowMapping by simp
qed

text \<open>The dict of the address entity and its item \<open>created\<close>.\<close>

theorem to_dict_dict_no_datetime_witness:
  "snd (to_dict (PCell address_b)) =
     Inr (PDict [(''id'', SInt 7), (''created'', SStr (str_datetime (Datetime 2024 1 5 9 30 0 0)))]) \<and>
   (''created'', SStr (str_datetime (Datetime 2024 1 5 9 30 0 0)))
     \<in> set [(''id'', SInt 7), (''created'', SStr (str_datetime (Datetime 2024 1 5 9 30 0 0)))] \<and>
   \<not> is_datetime (SStr (str_datetime (Datetime 2024 1 5 9 30 0 0)))"
proof -
  have run: "snd (to_dict (PCell address_b)) =
     Inr (PDict [(''id'', SInt 7), (''created'', SStr (str_datetime (Datetime 2024 1 5 9 30 0 0)))])"
    by (simp add: address_b_def setitem_def)
  have mem: "(''created'', SStr (str_datetime (Datetime 2024 1 5 9 30 0 0)))
     \<in> set [(''id'', SInt 7), (''created'', SStr (str_datetime (Datetime 2024 1 5 9 30 0 0)))]"
    by simp
  show ?thesis using run mem to_dict_dict_no_datetime[OF run mem] by blast
qed

text \<open>
  C6 as stated fails: a row of columns whose last element is 0 is returned as its own
  mapping, and the datetime of its column \<open>created\<close> is still a datetime there.
\<close>

theorem to_dict_flat_row_datetime_counterexample:
  "to_dict (PRow created_deleted_row) = ([], Inr (PRowMapping created_deleted_row)) \<and>
   (''created'', Scalar (SDatetime (Datetime 2024 1 5 9 30 0 0))) \<in> set created_deleted_row"
  by (simp add: created_deleted_row_def to_dict_row_def)

section \<open>C7: to_dict on a query\<close>

text \<open>
  C7: on every \<open>Query\<close> that has not been executed, \<open>to_dict\<close> prints the request to
  execute the statement first, returns \<open>None\<close>, raises nothing and returns no mapping.
\<close>

theorem to_dict_query:
  "to_dict (PQuery sql rs) = ([ExecuteSqlFirst], Inr PNone)"
  by simp

section \<open>C8: to_dict on a list\<close>




section \<open>C9: fetch_any\<close>




section \<open>C10: to_dict on None\<close>

text \<open>
  C10: \<open>to_dict(None)\<close> returns neither \<open>None\<close> nor a mapping: it reaches the last
  branch and raises \<open>AttributeError\<close> at \<open>obj.__mapper__\<close>. \<open>None\<close> is what \<open>get_first\<close>
  and \<open>get_one\<close> return for a query without results.
\<close>

theorem to_dict_None_raises:
  "to_dict PNone = ([], Inl AttributeError) \<and>
   get_first (PQuery sql []) = ([], Inr PNone) \<and>
   snd (get_one (PQuery sql [])) = Inr PNone"
  by simp

end
